theory Spec2Isabelle
  imports Main "HOL-Library.Multiset" "HOL-Library.List_Lexorder" "HOL-Library.Product_Lexorder"
begin

section \<open>Strings and characters\<close>

text \<open>
  A Python \<^verbatim>\<open>str\<close> is the list of its code points, each an integer from 0 to
  \<^verbatim>\<open>0x10FFFF\<close>. \<open>ascii\<close> gives the code points of a literal.
\<close>

type_synonym str = "int list"

definition ascii :: "string \<Rightarrow> str" where
  "ascii s = map of_char s"

abbreviation (input) ch :: "char \<Rightarrow> int" where
  "ch c \<equiv> of_char c"

text \<open>Exceptions that end a run.\<close>

datatype error =
    TargetNotFound str
  | RollbackFailed
  | RemoteError
  | ValueError
  | KeyError
  | IndexError

subsection \<open>Character classes\<close>

text \<open>
  The character tables are those of Unicode 14.0.0, the version of CPython 3.11. The
  pattern \<^verbatim>\<open>SEMVER_RE\<close> is compiled from a \<^verbatim>\<open>str\<close> without the \<^verbatim>\<open>ASCII\<close> flag,
  so its classes \<^verbatim>\<open>\d\<close> and \<^verbatim>\<open>\s\<close> are the Unicode ones.

  The decimal digits (category \<^verbatim>\<open>Nd\<close>) come in runs of ten, zero to nine;
  \<open>decimal_zeros\<close> lists the zero of every run.
\<close>

definition decimal_zeros :: "int list" where
  "decimal_zeros =
    [48, 1632, 1776, 1984, 2406, 2534, 2662, 2790, 2918, 3046, 3174, 3302, 3430, 3558,
     3664, 3792, 3872, 4160, 4240, 6112, 6160, 6470, 6608, 6784, 6800, 6992, 7088, 7232,
     7248, 42528, 43216, 43264, 43472, 43504, 43600, 44016, 65296, 66720, 68912, 69734,
     69872, 69942, 70096, 70384, 70736, 70864, 71248, 71360, 71472, 71904, 72016, 72784,
     73040, 73120, 92768, 92864, 93008, 120782, 120792, 120802, 120812, 120822, 123200,
     123632, 125264, 130032]"

definition decimal_zero :: "int \<Rightarrow> int option" where
  "decimal_zero c = List.find (\<lambda>z. z \<le> c \<and> c \<le> z + 9) decimal_zeros"

text \<open>The class \<^verbatim>\<open>\d\<close>.\<close>

definition is_digit :: "int \<Rightarrow> bool" where
  "is_digit c = (decimal_zero c \<noteq> None)"

text \<open>The class \<^verbatim>\<open>[0-9]\<close>.\<close>

definition is_ascii_digit :: "int \<Rightarrow> bool" where
  "is_ascii_digit c = (ch CHR ''0'' \<le> c \<and> c \<le> ch CHR ''9'')"

text \<open>The class \<^verbatim>\<open>[a-zA-Z]\<close>.\<close>

definition is_letter :: "int \<Rightarrow> bool" where
  "is_letter c = ((ch CHR ''a'' \<le> c \<and> c \<le> ch CHR ''z'') \<or> (ch CHR ''A'' \<le> c \<and> c \<le> ch CHR ''Z''))"

text \<open>The class \<^verbatim>\<open>[0-9a-zA-Z-]\<close>.\<close>

definition is_ident_char :: "int \<Rightarrow> bool" where
  "is_ident_char c = (is_ascii_digit c \<or> is_letter c \<or> c = ch CHR ''-'')"

text \<open>The class \<^verbatim>\<open>\s\<close>.\<close>

definition is_space :: "int \<Rightarrow> bool" where
  "is_space c = (c \<in> set
    [9, 10, 11, 12, 13, 28, 29, 30, 31, 32, 133, 160, 5760, 8192, 8193, 8194, 8195, 8196,
     8197, 8198, 8199, 8200, 8201, 8202, 8232, 8233, 8239, 8287, 12288])"

text \<open>
  The code points that \<^verbatim>\<open>str.isdigit\<close> accepts beyond the decimal digits (numeric type
  \<^verbatim>\<open>Digit\<close>: superscripts, subscripts, circled digits and the like), as ranges.
\<close>

definition other_digits :: "(int \<times> int) list" where
  "other_digits =
    [(178, 179), (185, 185), (4969, 4977), (6618, 6618), (8304, 8304), (8308, 8313),
     (8320, 8329), (9312, 9320), (9332, 9340), (9352, 9360), (9450, 9450), (9461, 9469),
     (9471, 9471), (10102, 10110), (10112, 10120), (10122, 10130), (68160, 68163),
     (69216, 69224), (69714, 69722), (127232, 127242)]"

definition isdigit_char :: "int \<Rightarrow> bool" where
  "isdigit_char c = (is_digit c \<or> list_ex (\<lambda>(lo, hi). lo \<le> c \<and> c \<le> hi) other_digits)"

text \<open>\<^verbatim>\<open>str.isdigit()\<close>: non-empty and every character a digit.\<close>

definition isdigit :: "str \<Rightarrow> bool" where
  "isdigit s = (s \<noteq> [] \<and> list_all isdigit_char s)"

subsection \<open>\<^verbatim>\<open>int\<close>\<close>

text \<open>
  \<^verbatim>\<open>int(s)\<close> as the program calls it: on a group that the pattern matched with
  \<^verbatim>\<open>0|[1-9]\d*\<close>, and on an identifier for which \<^verbatim>\<open>isdigit()\<close> holds. On such a
  string \<^verbatim>\<open>int\<close> reads decimal digits of any script by their digit value, raises
  \<^verbatim>\<open>ValueError\<close> at a digit character that is no decimal digit, and raises
  \<^verbatim>\<open>ValueError\<close> if the string has more than 4300 digits (the interpreter's default
  limit \<^verbatim>\<open>sys.int_info.default_max_str_digits\<close>; leading zeros count).
\<close>

definition digit_val :: "int \<Rightarrow> int" where
  "digit_val c = (case decimal_zero c of Some z \<Rightarrow> c - z | None \<Rightarrow> 0)"

definition max_str_digits :: int where
  "max_str_digits = 4300"

definition decimal_value :: "str \<Rightarrow> int" where
  "decimal_value s = foldl (\<lambda>acc c. 10 * acc + digit_val c) 0 s"

definition py_int :: "str \<Rightarrow> error + int" where
  "py_int s =
     (if s = [] \<or> \<not> list_all is_digit s then Inl ValueError
      else if max_str_digits < int (length s) then Inl ValueError
      else Inr (decimal_value s))"

subsection \<open>Comparison, splitting, upper case\<close>

text \<open>Python's \<^verbatim>\<open><\<close> on strings: lexicographic by code point, a proper prefix first.\<close>

fun str_lt :: "str \<Rightarrow> str \<Rightarrow> bool" where
  "str_lt [] [] = False"
| "str_lt [] (y # ys) = True"
| "str_lt (x # xs) [] = False"
| "str_lt (x # xs) (y # ys) =
     (if x < y then True
      else if x = y then str_lt xs ys
      else False)"

text \<open>\<^verbatim>\<open>s.split(".")\<close>: the pieces between the dots, empty pieces kept.\<close>

fun split_dot :: "str \<Rightarrow> str list" where
  "split_dot [] = [[]]"
| "split_dot (c # r) =
     (if c = ch CHR ''.'' then [] # split_dot r
      else (case split_dot r of [] \<Rightarrow> [[c]] | t # ts \<Rightarrow> (c # t) # ts))"

text \<open>
  \<^verbatim>\<open>str.upper()\<close> maps every code point by the full upper-case mapping, which can
  give more than one code point. \<open>upper_special\<close> lists the code points with such a
  longer image. \<open>upper_runs\<close> lists the others from 128 on that change: an element
  \<open>(lo, hi, step, u)\<close> says that the code points \<open>lo\<close>, \<open>lo + step\<close>, ... up to \<open>hi\<close>
  map to \<open>u\<close>, \<open>u + step\<close>, ... in turn.
\<close>

definition upper_special :: "(int \<times> int list) list" where
  "upper_special =
    [(223, [83, 83]), (329, [700, 78]), (496, [74, 780]), (912, [921, 776, 769]),
     (944, [933, 776, 769]), (1415, [1333, 1362]), (7830, [72, 817]), (7831, [84, 776]),
     (7832, [87, 778]), (7833, [89, 778]), (7834, [65, 702]), (8016, [933, 787]),
     (8018, [933, 787, 768]), (8020, [933, 787, 769]), (8022, [933, 787, 834]),
     (8064, [7944, 921]), (8065, [7945, 921]), (8066, [7946, 921]), (8067, [7947, 921]),
     (8068, [7948, 921]), (8069, [7949, 921]), (8070, [7950, 921]), (8071, [7951, 921]),
     (8072, [7944, 921]), (8073, [7945, 921]), (8074, [7946, 921]), (8075, [7947, 921]),
     (8076, [7948, 921]), (8077, [7949, 921]), (8078, [7950, 921]), (8079, [7951, 921]),
     (8080, [7976, 921]), (8081, [7977, 921]), (8082, [7978, 921]), (8083, [7979, 921]),
     (8084, [7980, 921]), (8085, [7981, 921]), (8086, [7982, 921]), (8087, [7983, 921]),
     (8088, [7976, 921]), (8089, [7977, 921]), (8090, [7978, 921]), (8091, [7979, 921]),
     (8092, [7980, 921]), (8093, [7981, 921]), (8094, [7982, 921]), (8095, [7983, 921]),
     (8096, [8040, 921]), (8097, [8041, 921]), (8098, [8042, 921]), (8099, [8043, 921]),
     (8100, [8044, 921]), (8101, [8045, 921]), (8102, [8046, 921]), (8103, [8047, 921]),
     (8104, [8040, 921]), (8105, [8041, 921]), (8106, [8042, 921]), (8107, [8043, 921]),
     (8108, [8044, 921]), (8109, [8045, 921]), (8110, [8046, 921]), (8111, [8047, 921]),
     (8114, [8122, 921]), (8115, [913, 921]), (8116, [902, 921]), (8118, [913, 834]),
     (8119, [913, 834, 921]), (8124, [913, 921]), (8130, [8138, 921]), (8131, [919, 921]),
     (8132, [905, 921]), (8134, [919, 834]), (8135, [919, 834, 921]), (8140, [919, 921]),
     (8146, [921, 776, 768]), (8147, [921, 776, 769]), (8150, [921, 834]),
     (8151, [921, 776, 834]), (8162, [933, 776, 768]), (8163, [933, 776, 769]),
     (8164, [929, 787]), (8166, [933, 834]), (8167, [933, 776, 834]), (8178, [8186, 921]),
     (8179, [937, 921]), (8180, [911, 921]), (8182, [937, 834]), (8183, [937, 834, 921]),
     (8188, [937, 921]), (64256, [70, 70]), (64257, [70, 73]), (64258, [70, 76]),
     (64259, [70, 70, 73]), (64260, [70, 70, 76]), (64261, [83, 84]), (64262, [83, 84]),
     (64275, [1348, 1350]), (64276, [1348, 1333]), (64277, [1348, 1339]),
     (64278, [1358, 1350]), (64279, [1348, 1341])]"

definition upper_runs :: "(int \<times> int \<times> int \<times> int) list" where
  "upper_runs =
    [(181, 181, 1, 924), (224, 246, 1, 192), (248, 254, 1, 216), (255, 255, 1, 376),
     (257, 303, 2, 256), (305, 305, 1, 73), (307, 311, 2, 306), (314, 328, 2, 313),
     (331, 375, 2, 330), (378, 382, 2, 377), (383, 383, 1, 83), (384, 384, 1, 579),
     (387, 389, 2, 386), (392, 392, 1, 391), (396, 396, 1, 395), (402, 402, 1, 401),
     (405, 405, 1, 502), (409, 409, 1, 408), (410, 410, 1, 573), (414, 414, 1, 544),
     (417, 421, 2, 416), (424, 424, 1, 423), (429, 429, 1, 428), (432, 432, 1, 431),
     (436, 438, 2, 435), (441, 441, 1, 440), (445, 445, 1, 444), (447, 447, 1, 503),
     (453, 453, 1, 452), (454, 454, 1, 452), (456, 456, 1, 455), (457, 457, 1, 455),
     (459, 459, 1, 458), (460, 460, 1, 458), (462, 476, 2, 461), (477, 477, 1, 398),
     (479, 495, 2, 478), (498, 498, 1, 497), (499, 499, 1, 497), (501, 501, 1, 500),
     (505, 543, 2, 504), (547, 563, 2, 546), (572, 572, 1, 571), (575, 576, 1, 11390),
     (578, 578, 1, 577), (583, 591, 2, 582), (592, 592, 1, 11375), (593, 593, 1, 11373),
     (594, 594, 1, 11376), (595, 595, 1, 385), (596, 596, 1, 390), (598, 599, 1, 393),
     (601, 601, 1, 399), (603, 603, 1, 400), (604, 604, 1, 42923), (608, 608, 1, 403),
     (609, 609, 1, 42924), (611, 611, 1, 404), (613, 613, 1, 42893), (614, 614, 1, 42922),
     (616, 616, 1, 407), (617, 617, 1, 406), (618, 618, 1, 42926), (619, 619, 1, 11362),
     (620, 620, 1, 42925), (623, 623, 1, 412), (625, 625, 1, 11374), (626, 626, 1, 413),
     (629, 629, 1, 415), (637, 637, 1, 11364), (640, 640, 1, 422), (642, 642, 1, 42949),
     (643, 643, 1, 425), (647, 647, 1, 42929), (648, 648, 1, 430), (649, 649, 1, 580),
     (650, 651, 1, 433), (652, 652, 1, 581), (658, 658, 1, 439), (669, 669, 1, 42930),
     (670, 670, 1, 42928), (837, 837, 1, 921), (881, 883, 2, 880), (887, 887, 1, 886),
     (891, 893, 1, 1021), (940, 940, 1, 902), (941, 943, 1, 904), (945, 961, 1, 913),
     (962, 962, 1, 931), (963, 971, 1, 931), (972, 972, 1, 908), (973, 974, 1, 910),
     (976, 976, 1, 914), (977, 977, 1, 920), (981, 981, 1, 934), (982, 982, 1, 928),
     (983, 983, 1, 975), (985, 1007, 2, 984), (1008, 1008, 1, 922), (1009, 1009, 1, 929),
     (1010, 1010, 1, 1017), (1011, 1011, 1, 895), (1013, 1013, 1, 917),
     (1016, 1016, 1, 1015), (1019, 1019, 1, 1018), (1072, 1103, 1, 1040),
     (1104, 1119, 1, 1024), (1121, 1153, 2, 1120), (1163, 1215, 2, 1162),
     (1218, 1230, 2, 1217), (1231, 1231, 1, 1216), (1233, 1327, 2, 1232),
     (1377, 1414, 1, 1329), (4304, 4346, 1, 7312), (4349, 4351, 1, 7357),
     (5112, 5117, 1, 5104), (7296, 7296, 1, 1042), (7297, 7297, 1, 1044),
     (7298, 7298, 1, 1054), (7299, 7300, 1, 1057), (7301, 7301, 1, 1058),
     (7302, 7302, 1, 1066), (7303, 7303, 1, 1122), (7304, 7304, 1, 42570),
     (7545, 7545, 1, 42877), (7549, 7549, 1, 11363), (7566, 7566, 1, 42950),
     (7681, 7829, 2, 7680), (7835, 7835, 1, 7776), (7841, 7935, 2, 7840),
     (7936, 7943, 1, 7944), (7952, 7957, 1, 7960), (7968, 7975, 1, 7976),
     (7984, 7991, 1, 7992), (8000, 8005, 1, 8008), (8017, 8023, 2, 8025),
     (8032, 8039, 1, 8040), (8048, 8049, 1, 8122), (8050, 8053, 1, 8136),
     (8054, 8055, 1, 8154), (8056, 8057, 1, 8184), (8058, 8059, 1, 8170),
     (8060, 8061, 1, 8186), (8112, 8113, 1, 8120), (8126, 8126, 1, 921),
     (8144, 8145, 1, 8152), (8160, 8161, 1, 8168), (8165, 8165, 1, 8172),
     (8526, 8526, 1, 8498), (8560, 8575, 1, 8544), (8580, 8580, 1, 8579),
     (9424, 9449, 1, 9398), (11312, 11359, 1, 11264), (11361, 11361, 1, 11360),
     (11365, 11365, 1, 570), (11366, 11366, 1, 574), (11368, 11372, 2, 11367),
     (11379, 11379, 1, 11378), (11382, 11382, 1, 11381), (11393, 11491, 2, 11392),
     (11500, 11502, 2, 11499), (11507, 11507, 1, 11506), (11520, 11557, 1, 4256),
     (11559, 11559, 1, 4295), (11565, 11565, 1, 4301), (42561, 42605, 2, 42560),
     (42625, 42651, 2, 42624), (42787, 42799, 2, 42786), (42803, 42863, 2, 42802),
     (42874, 42876, 2, 42873), (42879, 42887, 2, 42878), (42892, 42892, 1, 42891),
     (42897, 42899, 2, 42896), (42900, 42900, 1, 42948), (42903, 42921, 2, 42902),
     (42933, 42947, 2, 42932), (42952, 42954, 2, 42951), (42961, 42961, 1, 42960),
     (42967, 42969, 2, 42966), (42998, 42998, 1, 42997), (43859, 43859, 1, 42931),
     (43888, 43967, 1, 5024), (65345, 65370, 1, 65313), (66600, 66639, 1, 66560),
     (66776, 66811, 1, 66736), (66967, 67003, 2, 66928), (66968, 66976, 2, 66929),
     (66980, 66992, 2, 66941), (66996, 67000, 2, 66957), (67004, 67004, 1, 66965),
     (68800, 68850, 1, 68736), (71872, 71903, 1, 71840), (93792, 93823, 1, 93760),
     (125218, 125251, 1, 125184)]"

definition upper_char :: "int \<Rightarrow> int list" where
  "upper_char c =
     (if ch CHR ''a'' \<le> c \<and> c \<le> ch CHR ''z'' then [c - 32]
      else if c < 128 then [c]
      else
        (case map_of upper_special c of
           Some u \<Rightarrow> u
         | None \<Rightarrow>
             (case List.find (\<lambda>(lo, hi, step, u). lo \<le> c \<and> c \<le> hi \<and> (c - lo) mod step = 0)
                     upper_runs of
                Some (lo, hi, step, u) \<Rightarrow> [u + (c - lo)]
              | None \<Rightarrow> [c])))"

definition upper :: "str \<Rightarrow> str" where
  "upper s = concat (map upper_char s)"

section \<open>The semantic-version comparator\<close>

record SemVer =
  major :: int
  minor :: int
  patch :: int
  prerelease :: "str list"
  original :: str

subsection \<open>\<^verbatim>\<open>SEMVER_RE\<close> and \<^verbatim>\<open>SemVer.parse\<close>\<close>

text \<open>
  The pattern is matched piece by piece. Every piece of it is followed by a character
  outside the piece's own alphabet (a dot after a number, a plus sign, white space or the
  end after the prerelease), so the greedy match is the only one that can succeed and no
  backtracking is lost.
\<close>

text \<open>
  \<^verbatim>\<open>0|[1-9]\d*\<close> at the head of the input: the digits matched and the rest. The first
  digit is an ASCII one, the following ones are of any script.
\<close>

definition match_number :: "str \<Rightarrow> (str \<times> str) option" where
  "match_number s =
     (case s of
        [] \<Rightarrow> None
      | c # r \<Rightarrow>
          if c = ch CHR ''0'' then Some ([c], r)
          else if ch CHR ''1'' \<le> c \<and> c \<le> ch CHR ''9''
          then Some (c # takeWhile is_digit r, dropWhile is_digit r)
          else None)"

definition match_char :: "int \<Rightarrow> str \<Rightarrow> str option" where
  "match_char c s = (case s of [] \<Rightarrow> None | d # r \<Rightarrow> if d = c then Some r else None)"

text \<open>One prerelease identifier, \<^verbatim>\<open>0|[1-9]\d*|[a-zA-Z-][0-9a-zA-Z-]*\<close>, matched in full.\<close>

definition prerelease_ident :: "str \<Rightarrow> bool" where
  "prerelease_ident t =
     (case t of
        [] \<Rightarrow> False
      | c # r \<Rightarrow>
          if c = ch CHR ''0'' then r = []
          else if ch CHR ''1'' \<le> c \<and> c \<le> ch CHR ''9'' then list_all is_digit r
          else (is_letter c \<or> c = ch CHR ''-'') \<and> list_all is_ident_char r)"

text \<open>One build segment, \<^verbatim>\<open>[0-9a-zA-Z-]+\<close>, matched in full.\<close>

definition build_ident :: "str \<Rightarrow> bool" where
  "build_ident t = (t \<noteq> [] \<and> list_all is_ident_char t)"

text \<open>The characters that the prerelease group can consume, and those of the build group.\<close>

definition is_prerelease_char :: "int \<Rightarrow> bool" where
  "is_prerelease_char c = (is_digit c \<or> is_ident_char c \<or> c = ch CHR ''.'')"

definition is_build_char :: "int \<Rightarrow> bool" where
  "is_build_char c = (is_ident_char c \<or> c = ch CHR ''.'')"

text \<open>
  The optional group \<^verbatim>\<open>(?:-(?P<prerelease>...))?\<close>. After a hyphen the group has to
  match, since nothing else in the pattern accepts a hyphen there; without one the
  group is absent and the captured text is empty.
\<close>

definition match_prerelease :: "str \<Rightarrow> (str \<times> str) option" where
  "match_prerelease s =
     (case s of
        [] \<Rightarrow> Some ([], s)
      | c # r \<Rightarrow>
          if c = ch CHR ''-'' then
            (let raw = takeWhile is_prerelease_char r in
             if list_all prerelease_ident (split_dot raw)
             then Some (raw, dropWhile is_prerelease_char r) else None)
          else Some ([], s))"

text \<open>The optional group \<^verbatim>\<open>(?:\+(?P<build>...))?\<close>, in the same way.\<close>

definition match_build :: "str \<Rightarrow> (str \<times> str) option" where
  "match_build s =
     (case s of
        [] \<Rightarrow> Some ([], s)
      | c # r \<Rightarrow>
          if c = ch CHR ''+'' then
            (let raw = takeWhile is_build_char r in
             if list_all build_ident (split_dot raw)
             then Some (raw, dropWhile is_build_char r) else None)
          else Some ([], s))"

text \<open>
  \<^verbatim>\<open>SEMVER_RE.match(version)\<close>: the groups \<^verbatim>\<open>major\<close>, \<^verbatim>\<open>minor\<close>, \<^verbatim>\<open>patch\<close> and
  \<^verbatim>\<open>prerelease\<close> (empty when the group is absent), or \<open>None\<close>.
\<close>

definition SEMVER_RE_match :: "str \<Rightarrow> (str \<times> str \<times> str \<times> str) option" where
  "SEMVER_RE_match version_str =
     (let s0 = dropWhile is_space version_str;
          s1 = (case match_char (ch CHR ''v'') s0 of Some r \<Rightarrow> r | None \<Rightarrow> s0)
      in case match_number s1 of None \<Rightarrow> None | Some (g_major, s2) \<Rightarrow>
        (case match_char (ch CHR ''.'') s2 of None \<Rightarrow> None | Some s3 \<Rightarrow>
        (case match_number s3 of None \<Rightarrow> None | Some (g_minor, s4) \<Rightarrow>
        (case match_char (ch CHR ''.'') s4 of None \<Rightarrow> None | Some s5 \<Rightarrow>
        (case match_number s5 of None \<Rightarrow> None | Some (g_patch, s6) \<Rightarrow>
        (case match_prerelease s6 of None \<Rightarrow> None | Some (prerelease_raw, s7) \<Rightarrow>
        (case match_build s7 of None \<Rightarrow> None | Some (g_build, s8) \<Rightarrow>
           if list_all is_space s8
           then Some (g_major, g_minor, g_patch, prerelease_raw)
           else None)))))))"

text \<open>
  \<^verbatim>\<open>SemVer.parse\<close>: \<open>Inr None\<close> when the pattern does not match, \<open>Inl ValueError\<close> when
  one of the three \<^verbatim>\<open>int\<close> calls raises.
\<close>

definition SemVer_parse :: "str \<Rightarrow> error + SemVer option" where
  "SemVer_parse version_str =
     (case SEMVER_RE_match version_str of
        None \<Rightarrow> Inr None
      | Some (g_major, g_minor, g_patch, prerelease_raw) \<Rightarrow>
          (case py_int g_major of Inl e \<Rightarrow> Inl e | Inr mj \<Rightarrow>
          (case py_int g_minor of Inl e \<Rightarrow> Inl e | Inr mn \<Rightarrow>
          (case py_int g_patch of Inl e \<Rightarrow> Inl e | Inr pt \<Rightarrow>
             Inr (Some \<lparr>major = mj, minor = mn, patch = pt,
                        prerelease = (if prerelease_raw \<noteq> [] then split_dot prerelease_raw else []),
                        original = version_str\<rparr>)))))"

subsection \<open>\<^verbatim>\<open>compare_semver\<close>\<close>

text \<open>
  The \<^verbatim>\<open>for\<close> loop over \<^verbatim>\<open>zip(a.prerelease, b.prerelease)\<close>: \<open>Inr (Some r)\<close> when the
  loop body returns \<open>r\<close>, \<open>Inr None\<close> when the loop runs to its end, \<open>Inl e\<close> when a
  call of \<^verbatim>\<open>int\<close> raises.
\<close>

fun prerelease_loop :: "(str \<times> str) list \<Rightarrow> error + int option" where
  "prerelease_loop [] = Inr None"
| "prerelease_loop ((at, bt) # rest) =
     (if at = bt then prerelease_loop rest
      else
        let a_num = isdigit at; b_num = isdigit bt in
        if a_num \<and> b_num then
          (case py_int at of Inl e \<Rightarrow> Inl e | Inr ai \<Rightarrow>
          (case py_int bt of Inl e \<Rightarrow> Inl e | Inr bi \<Rightarrow>
             if ai \<noteq> bi then Inr (Some (if ai < bi then - 1 else 1))
             else prerelease_loop rest))
        else if a_num \<and> \<not> b_num then Inr (Some (- 1))
        else if \<not> a_num \<and> b_num then Inr (Some 1)
        else (if str_lt at bt then Inr (Some (- 1)) else Inr (Some 1)))"

definition compare_semver :: "SemVer \<Rightarrow> SemVer \<Rightarrow> error + int" where
  "compare_semver a b =
     (if major a \<noteq> major b then Inr (if major a < major b then - 1 else 1)
      else if minor a \<noteq> minor b then Inr (if minor a < minor b then - 1 else 1)
      else if patch a \<noteq> patch b then Inr (if patch a < patch b then - 1 else 1)
      else if prerelease a = [] \<and> prerelease b \<noteq> [] then Inr 1
      else if prerelease a \<noteq> [] \<and> prerelease b = [] then Inr (- 1)
      else
        (case prerelease_loop (zip (prerelease a) (prerelease b)) of
           Inl e \<Rightarrow> Inl e
         | Inr (Some r) \<Rightarrow> Inr r
         | Inr None \<Rightarrow>
             if length (prerelease a) \<noteq> length (prerelease b)
             then Inr (if length (prerelease a) < length (prerelease b) then - 1 else 1)
             else Inr 0))"

subsection \<open>\<^verbatim>\<open>sort_versions_by_semver_desc\<close>\<close>

text \<open>
  The loop that keeps the strings that parse, each with its parsed value; it ends at the
  first string whose parse raises.
\<close>

fun parse_all :: "str list \<Rightarrow> error + (SemVer \<times> str) list" where
  "parse_all [] = Inr []"
| "parse_all (v # vs) =
     (case SemVer_parse v of
        Inl e \<Rightarrow> Inl e
      | Inr None \<Rightarrow> parse_all vs
      | Inr (Some sv) \<Rightarrow>
          (case parse_all vs of Inl e \<Rightarrow> Inl e | Inr rest \<Rightarrow> Inr ((sv, v) # rest)))"

text \<open>
  \<^verbatim>\<open>parsed.sort(key=lambda t: t[0], reverse=True)\<close>. Python's sort is stable, also
  with \<^verbatim>\<open>reverse=True\<close>, and compares keys with \<^verbatim>\<open>__lt__\<close> only, which is
  \<^verbatim>\<open>compare_semver(a, b) < 0\<close>. The model is the stable insertion sort with that test:
  an element goes in front of the first element it is not smaller than, so greater
  elements stay in front and equal ones keep their input order. An exception of a
  comparison ends the sort. Which pairs Python's sort compares is not modelled; a sort
  has to compare the elements that end up next to each other, and among the elements
  that share everything before a numeric identifier too long for \<^verbatim>\<open>int\<close> some two
  neighbours differ in that identifier, so Python's sort raises exactly when two of the
  elements cannot be compared, and so does this one.
\<close>

fun insort_desc :: "(SemVer \<times> str) \<Rightarrow> (SemVer \<times> str) list \<Rightarrow> error + (SemVer \<times> str) list" where
  "insort_desc x [] = Inr [x]"
| "insort_desc x (y # ys) =
     (case compare_semver (fst x) (fst y) of
        Inl e \<Rightarrow> Inl e
      | Inr r \<Rightarrow>
          if r < 0
          then (case insort_desc x ys of Inl e \<Rightarrow> Inl e | Inr zs \<Rightarrow> Inr (y # zs))
          else Inr (x # y # ys))"

fun sort_desc :: "(SemVer \<times> str) list \<Rightarrow> error + (SemVer \<times> str) list" where
  "sort_desc [] = Inr []"
| "sort_desc (x # xs) =
     (case sort_desc xs of Inl e \<Rightarrow> Inl e | Inr ys \<Rightarrow> insort_desc x ys)"

definition sort_versions_by_semver_desc :: "str list \<Rightarrow> error + str list" where
  "sort_versions_by_semver_desc version_strings =
     (case parse_all version_strings of
        Inl e \<Rightarrow> Inl e
      | Inr parsed \<Rightarrow>
          (case sort_desc parsed of Inl e \<Rightarrow> Inl e | Inr ordered \<Rightarrow> Inr (map snd ordered)))"

section \<open>Eligibility and selection\<close>

definition TRUSTED :: str where "TRUSTED = ascii ''TRUSTED_RELEASE''"
definition RELEASED :: str where "RELEASED = ascii ''RELEASED''"
definition QUARANTINE_TAG :: str where "QUARANTINE_TAG = ascii ''quarantine''"
definition LATEST_TAG :: str where "LATEST_TAG = ascii ''latest''"
definition BACKUP_BEFORE_LATEST :: str where
  "BACKUP_BEFORE_LATEST = ascii ''original_tag_before_latest''"
definition BACKUP_BEFORE_QUARANTINE :: str where
  "BACKUP_BEFORE_QUARANTINE = ascii ''original_tag_before_quarantine''"

text \<open>
  One element of the \<^verbatim>\<open>versions\<close> list of a list response, as the loop of
  \<^verbatim>\<open>get_prod_versions\<close> reads it: \<open>raw_version\<close> is \<^verbatim>\<open>str(v.get("version", ""))\<close>
  and \<open>raw_release_status\<close> is \<^verbatim>\<open>str(v.get("release_status", ""))\<close> (an absent key
  is the empty string), \<open>raw_tag\<close> is \<^verbatim>\<open>v.get("tag")\<close>, \<open>None\<close> for an absent key or a
  null, otherwise the tag's text.
\<close>

record raw_entry =
  raw_version :: str
  raw_tag :: "str option"
  raw_release_status :: str

text \<open>The dictionaries \<^verbatim>\<open>{"version": .., "tag": .., "release_status": ..}\<close> of \<^verbatim>\<open>norm\<close>.\<close>

record entry =
  version :: str
  tag :: str
  release_status :: str

text \<open>The loop of \<^verbatim>\<open>get_prod_versions\<close> that builds \<^verbatim>\<open>norm\<close>.\<close>

fun eligible_entries :: "raw_entry list \<Rightarrow> entry list" where
  "eligible_entries [] = []"
| "eligible_entries (v # vs) =
     (let ver = raw_version v;
          tag_str = (case raw_tag v of None \<Rightarrow> [] | Some t \<Rightarrow> t);
          rs = upper (raw_release_status v)
      in if rs = TRUSTED \<or> rs = RELEASED
         then \<lparr>version = ver, tag = tag_str, release_status = rs\<rparr> # eligible_entries vs
         else eligible_entries vs)"

text \<open>
  \<^verbatim>\<open>{ver: i for i, ver in enumerate(order)}\<close>: a later position overwrites an earlier
  one of the same string.
\<close>

definition index_map :: "str list \<Rightarrow> (str \<rightharpoonup> int)" where
  "index_map order = fold (\<lambda>(i, ver) m. m(ver \<mapsto> int i)) (enumerate 0 order) Map.empty"

text \<open>The sort key \<^verbatim>\<open>idx.get(x["version"], 10**9)\<close>.\<close>

definition sort_index :: "(str \<rightharpoonup> int) \<Rightarrow> entry \<Rightarrow> int" where
  "sort_index idx x = (case idx (version x) of Some i \<Rightarrow> i | None \<Rightarrow> 10 ^ 9)"

text \<open>
  \<^verbatim>\<open>get_prod_versions\<close> on the \<^verbatim>\<open>versions\<close> list of the response; the request itself
  is issued in \<open>rollback_in_prod\<close> below. \<^verbatim>\<open>norm.sort(key=...)\<close> is the stable
  ascending sort \<^const>\<open>sort_key\<close>.
\<close>

definition get_prod_versions :: "raw_entry list \<Rightarrow> error + entry list" where
  "get_prod_versions versions =
     (let norm = eligible_entries versions in
      case sort_versions_by_semver_desc (map version norm) of
        Inl e \<Rightarrow> Inl e
      | Inr order \<Rightarrow>
          let idx = index_map order in
          Inr (sort_key (sort_index idx) norm))"

text \<open>
  The dictionary \<^verbatim>\<open>dup\<close> as an association list in insertion order;
  \<^verbatim>\<open>dup.setdefault(k, []).append(v)\<close>.
\<close>

fun setdefault_append :: "str \<Rightarrow> entry \<Rightarrow> (str \<times> entry list) list \<Rightarrow> (str \<times> entry list) list" where
  "setdefault_append k v [] = [(k, [v])]"
| "setdefault_append k v ((k', l) # d) =
     (if k' = k then (k', l @ [v]) # d else (k', l) # setdefault_append k v d)"

definition build_dup :: "entry list \<Rightarrow> str \<Rightarrow> (str \<times> entry list) list" where
  "build_dup sorted_prod_versions exclude_version =
     fold (\<lambda>v dup.
             if version v = exclude_version then dup
             else if tag v = QUARANTINE_TAG then dup
             else setdefault_append (version v) v dup)
          sorted_prod_versions []"

definition build_ordered :: "entry list \<Rightarrow> str \<Rightarrow> (str \<times> entry list) list \<Rightarrow> str set \<times> str list" where
  "build_ordered sorted_prod_versions exclude_version dup =
     fold (\<lambda>v (seen, ordered).
             let vv = version v in
             if vv = exclude_version then (seen, ordered)
             else if map_of dup vv \<noteq> None \<and> vv \<notin> seen then (insert vv seen, ordered @ [vv])
             else (seen, ordered))
          sorted_prod_versions ({}, [])"

definition pick_next_latest :: "entry list \<Rightarrow> str \<Rightarrow> error + entry option" where
  "pick_next_latest sorted_prod_versions exclude_version =
     (let dup = build_dup sorted_prod_versions exclude_version in
      if dup = [] then Inr None
      else
        let ordered = snd (build_ordered sorted_prod_versions exclude_version dup) in
        case ordered of
          [] \<Rightarrow> Inr None
        | ver # _ \<Rightarrow>
            (case map_of dup ver of
               None \<Rightarrow> Inl KeyError
             | Some cands \<Rightarrow>
                 let trusted = filter (\<lambda>c. release_status c = TRUSTED) cands in
                 if trusted \<noteq> [] then Inr (Some (hd trusted))
                 else (case cands of [] \<Rightarrow> Inl IndexError | c # _ \<Rightarrow> Inr (Some c))))"

section \<open>The rollback orchestrator\<close>

text \<open>
  The registry client is the boundary of the program. A run is modelled by what it sends
  across that boundary and what it prints, in order, and by how it ends. The client of a
  run fixes what the remote side answers: the list response (\<open>None\<close> when the
  request raises), whether the stage rollback returns, and whether a patch of a given
  version returns.
\<close>

record client =
  list_response :: "raw_entry list option"
  rollback_ok :: bool
  patch_ok :: "str \<Rightarrow> bool"

datatype message =
    CallingEndpoint str str str
  | InvokedRollback str str str
  | DryRunRollback str str str
  | DryRunPatch str str "(str \<times> str list) list" str
  | NoSuccessor
  | ReassignedLatest str
  | LatestUnchanged

datatype event =
    ListVersions str
  | RollbackVersion str str str
  | PatchVersion str str str "(str \<times> str list) list"
  | Print message

type_synonym 'a run = "event list \<times> (error + 'a)"

text \<open>Sequencing: the second step runs only if the first did not raise.\<close>

definition seq :: "'a run \<Rightarrow> ('a \<Rightarrow> 'b run) \<Rightarrow> 'b run" where
  "seq m f =
     (case m of
        (t, Inl e) \<Rightarrow> (t, Inl e)
      | (t, Inr x) \<Rightarrow> (case f x of (t', r) \<Rightarrow> (t @ t', r)))"

definition emit :: "event \<Rightarrow> unit run" where
  "emit e = ([e], Inr ())"

definition raise :: "error \<Rightarrow> 'a run" where
  "raise e = ([], Inl e)"

definition list_application_versions :: "client \<Rightarrow> str \<Rightarrow> raw_entry list run" where
  "list_application_versions client app_key =
     ([ListVersions app_key],
      case list_response client of None \<Rightarrow> Inl RemoteError | Some versions \<Rightarrow> Inr versions)"

definition patch_application_version ::
  "client \<Rightarrow> str \<Rightarrow> str \<Rightarrow> str \<Rightarrow> (str \<times> str list) list \<Rightarrow> unit run" where
  "patch_application_version client app_key ver new_tag props =
     ([PatchVersion app_key ver new_tag props],
      if patch_ok client ver then Inr () else Inl RemoteError)"

definition rollback_application_version :: "client \<Rightarrow> str \<Rightarrow> str \<Rightarrow> str \<Rightarrow> unit run" where
  "rollback_application_version client app_key ver from_stage =
     ([RollbackVersion app_key ver from_stage],
      if rollback_ok client then Inr () else Inl RemoteError)"

definition backup_tag_then_patch ::
  "client \<Rightarrow> str \<Rightarrow> str \<Rightarrow> str \<Rightarrow> str \<Rightarrow> str \<Rightarrow> bool \<Rightarrow> unit run" where
  "backup_tag_then_patch client app_key ver backup_prop_key new_tag current_tag dry_run =
     (let props = [(backup_prop_key, [current_tag])] in
      if dry_run then emit (Print (DryRunPatch app_key ver props new_tag))
      else patch_application_version client app_key ver new_tag props)"

text \<open>\<^verbatim>\<open>{v["version"]: v for v in prod_versions}\<close>: a later entry overwrites an earlier one.\<close>

definition by_version_of :: "entry list \<Rightarrow> (str \<rightharpoonup> entry)" where
  "by_version_of prod_versions = fold (\<lambda>v m. m(version v \<mapsto> v)) prod_versions Map.empty"

text \<open>
  The \<^verbatim>\<open>try\<close> block of step 1: any exception of the rollback request is raised again
  as the run's own rollback failure.
\<close>

definition call_rollback :: "client \<Rightarrow> str \<Rightarrow> str \<Rightarrow> str \<Rightarrow> unit run" where
  "call_rollback client app_key target_version from_stage =
     (case rollback_application_version client app_key target_version from_stage of
        (t, Inl e) \<Rightarrow> (t, Inl RollbackFailed)
      | (t, Inr u) \<Rightarrow> (t @ [Print (InvokedRollback app_key target_version from_stage)], Inr u))"

text \<open>
  Step 2 of \<^verbatim>\<open>rollback_in_prod\<close>, the tag management, for the target entry found by
  the validation.
\<close>

definition tag_steps :: "client \<Rightarrow> str \<Rightarrow> str \<Rightarrow> entry \<Rightarrow> entry list \<Rightarrow> bool \<Rightarrow> unit run" where
  "tag_steps client app_key target_version target prod_versions dry_run =
     (let current_tag = tag target;
          had_latest = (current_tag = LATEST_TAG)
      in
      seq (backup_tag_then_patch client app_key target_version
             BACKUP_BEFORE_QUARANTINE QUARANTINE_TAG current_tag dry_run) (\<lambda>_.
        if had_latest then
          (case pick_next_latest prod_versions target_version of
             Inl e \<Rightarrow> raise e
           | Inr None \<Rightarrow> emit (Print NoSuccessor)
           | Inr (Some next_candidate) \<Rightarrow>
               let cand_ver = version next_candidate;
                   cand_tag = tag next_candidate
               in seq (backup_tag_then_patch client app_key cand_ver
                         BACKUP_BEFORE_LATEST LATEST_TAG cand_tag dry_run)
                      (\<lambda>_. emit (Print (ReassignedLatest cand_ver))))
        else emit (Print LatestUnchanged)))"

text \<open>
  \<^verbatim>\<open>rollback_in_prod\<close>. The list request is the first thing \<^verbatim>\<open>get_prod_versions\<close>
  does; an exception of \<^verbatim>\<open>get_prod_versions\<close> ends the run.
\<close>

definition rollback_in_prod :: "client \<Rightarrow> str \<Rightarrow> str \<Rightarrow> bool \<Rightarrow> unit run" where
  "rollback_in_prod client app_key target_version dry_run =
     seq (list_application_versions client app_key) (\<lambda>versions.
       case get_prod_versions versions of
         Inl e \<Rightarrow> raise e
       | Inr prod_versions \<Rightarrow>
           let by_version = by_version_of prod_versions in
           (case by_version target_version of
              None \<Rightarrow> raise (TargetNotFound target_version)
            | Some target \<Rightarrow>
                let from_stage = ascii ''PROD'' in
                seq (if \<not> dry_run
                     then seq (emit (Print (CallingEndpoint app_key target_version from_stage)))
                              (\<lambda>_. call_rollback client app_key target_version from_stage)
                     else emit (Print (DryRunRollback app_key target_version from_stage)))
                    (\<lambda>_. tag_steps client app_key target_version target prod_versions dry_run)))"

section \<open>Reference definitions\<close>

subsection \<open>Semantic-version precedence\<close>















subsection \<open>Successor selection\<close>

text \<open>
  The entries that survive the two exclusions of the specification's \<^verbatim>\<open>pickSuccessor\<close>:
  not the excluded version, not tagged "quarantine".
\<close>

definition survivors :: "entry list \<Rightarrow> str \<Rightarrow> entry list" where
  "survivors ranked exclude_version =
     filter (\<lambda>v. version v \<noteq> exclude_version \<and> tag v \<noteq> QUARANTINE_TAG) ranked"

text \<open>The bodies of the first and of the second loop of \<^verbatim>\<open>pick_next_latest\<close>, named.\<close>

definition dup_step :: "str \<Rightarrow> entry \<Rightarrow> (str \<times> entry list) list \<Rightarrow> (str \<times> entry list) list" where
  "dup_step ex = (\<lambda>v dup.
             if version v = ex then dup
             else if tag v = QUARANTINE_TAG then dup
             else setdefault_append (version v) v dup)"

definition ordered_step :: "str \<Rightarrow> (str \<times> entry list) list \<Rightarrow> entry \<Rightarrow> str set \<times> str list \<Rightarrow> str set \<times> str list" where
  "ordered_step ex dup = (\<lambda>v (seen, ordered).
             let vv = version v in
             if vv = ex then (seen, ordered)
             else if map_of dup vv \<noteq> None \<and> vv \<notin> seen then (insert vv seen, ordered @ [vv])
             else (seen, ordered))"

subsection \<open>Runs\<close>

text \<open>The requests that change the registry.\<close>

fun is_patch :: "event \<Rightarrow> bool" where
  "is_patch (PatchVersion app_key ver new_tag props) = True"
| "is_patch e = False"

fun is_mutating :: "event \<Rightarrow> bool" where
  "is_mutating (RollbackVersion app_key ver from_stage) = True"
| "is_mutating (PatchVersion app_key ver new_tag props) = True"
| "is_mutating e = False"

text \<open>The request that a dry-run line announces.\<close>

fun intended :: "event \<Rightarrow> event option" where
  "intended (Print (DryRunRollback app_key ver from_stage)) =
     Some (RollbackVersion app_key ver from_stage)"
| "intended (Print (DryRunPatch app_key ver props new_tag)) =
     Some (PatchVersion app_key ver new_tag props)"
| "intended e = None"

text \<open>A client whose remote side answers every request.\<close>

definition all_ok :: "client \<Rightarrow> client" where
  "all_ok client = client\<lparr>rollback_ok := True, patch_ok := (\<lambda>ver. True)\<rparr>"

section \<open>Properties of the comparator\<close>

subsection \<open>Characters and numerals\<close>







lemma is_digit_isdigit_char: "is_digit c \<Longrightarrow> isdigit_char c"
  by (simp add: isdigit_char_def)




subsection \<open>Three-way comparison in a linear order\<close>










subsection \<open>\<^verbatim>\<open>compare_semver\<close> computes the order of the keys\<close>





subsection \<open>What the pattern guarantees\<close>




subsection \<open>When \<^verbatim>\<open>compare_semver\<close> returns 0\<close>




subsection \<open>Numerals in ASCII\<close>












subsection \<open>\<^verbatim>\<open>compare_semver\<close> and the precedence rules\<close>







section \<open>Claims about the comparator\<close>







section \<open>The successor search\<close>

lemma setdefault_append_nonempty: "setdefault_append k v d \<noteq> []"
  by (cases d) (auto split: if_splits)

lemma map_of_setdefault_append:
  "map_of (setdefault_append k v d) =
     (map_of d)(k \<mapsto> (case map_of d k of None \<Rightarrow> [] | Some l \<Rightarrow> l) @ [v])"
  by (induction d) (auto simp: fun_eq_iff)

lemma fold_dup_step_lookup:
  "map_of (fold (dup_step ex) xs d) k =
     (let l = filter (\<lambda>v. version v = k) (survivors xs ex) in
      case map_of d k of
        None \<Rightarrow> if l = [] then None else Some l
      | Some l0 \<Rightarrow> Some (l0 @ l))"
proof (induction xs arbitrary: d)
  case Nil
  then show ?case by (simp add: survivors_def split: option.splits)
next
  case (Cons x xs)
  show ?case
    unfolding fold_Cons comp_def Cons.IH
    by (auto simp: dup_step_def survivors_def map_of_setdefault_append Let_def split: option.splits)
qed

lemma fold_dup_step_empty:
  "fold (dup_step ex) xs d = [] \<longleftrightarrow> d = [] \<and> survivors xs ex = []"
proof (induction xs arbitrary: d)
  case Nil
  then show ?case by (simp add: survivors_def)
next
  case (Cons x xs)
  show ?case
    unfolding fold_Cons comp_def Cons.IH
    by (auto simp: dup_step_def survivors_def setdefault_append_nonempty)
qed

lemma build_dup_fold: "build_dup xs ex = fold (dup_step ex) xs []"
  by (simp add: build_dup_def dup_step_def)

lemma build_dup_empty: "build_dup xs ex = [] \<longleftrightarrow> survivors xs ex = []"
  by (simp add: build_dup_fold fold_dup_step_empty)

lemma build_dup_lookup:
  "map_of (build_dup xs ex) k =
     (if filter (\<lambda>v. version v = k) (survivors xs ex) = [] then None
      else Some (filter (\<lambda>v. version v = k) (survivors xs ex)))"
  by (simp add: build_dup_fold fold_dup_step_lookup)

lemma fold_ordered_step_prefix:
  "\<exists>rest. snd (fold (ordered_step ex dup) xs (seen, ord)) = ord @ rest"
proof (induction xs arbitrary: seen ord)
  case Nil
  then show ?case by simp
next
  case (Cons x xs)
  show ?case
  proof (cases "version x \<noteq> ex \<and> map_of dup (version x) \<noteq> None \<and> version x \<notin> seen")
    case True
    then have "ordered_step ex dup x (seen, ord) = (insert (version x) seen, ord @ [version x])"
      by (auto simp: ordered_step_def Let_def)
    with Cons.IH[of "insert (version x) seen" "ord @ [version x]"] show ?thesis by auto
  next
    case False
    then have "ordered_step ex dup x (seen, ord) = (seen, ord)"
      by (auto simp: ordered_step_def Let_def)
    with Cons.IH[of seen ord] show ?thesis by auto
  qed
qed

lemma fold_ordered_step_first:
  "snd (fold (ordered_step ex dup) xs ({}, [])) =
     (case List.find (\<lambda>v. version v \<noteq> ex \<and> map_of dup (version v) \<noteq> None) xs of
        None \<Rightarrow> []
      | Some f \<Rightarrow> snd (fold (ordered_step ex dup) xs ({}, [])))
   \<and> (\<forall>f. List.find (\<lambda>v. version v \<noteq> ex \<and> map_of dup (version v) \<noteq> None) xs = Some f \<longrightarrow>
         (\<exists>rest. snd (fold (ordered_step ex dup) xs ({}, [])) = version f # rest))"
proof (induction xs)
  case Nil
  then show ?case by simp
next
  case (Cons x xs)
  show ?case
  proof (cases "version x \<noteq> ex \<and> map_of dup (version x) \<noteq> None")
    case True
    then have st: "ordered_step ex dup x ({}, []) = ({version x}, [version x])"
      by (auto simp: ordered_step_def Let_def)
    from fold_ordered_step_prefix[of ex dup xs "{version x}" "[version x]"]
    obtain rest where "snd (fold (ordered_step ex dup) xs ({version x}, [version x])) = version x # rest"
      by auto
    with True st show ?thesis by auto
  next
    case False
    then have st: "ordered_step ex dup x ({}, []) = ({}, [])"
      by (auto simp: ordered_step_def Let_def)
    with False Cons.IH show ?thesis by (auto split: option.splits)
  qed
qed

lemma build_ordered_fold:
  "build_ordered xs ex dup = fold (ordered_step ex dup) xs ({}, [])"
  by (simp add: build_ordered_def ordered_step_def)

lemma build_ordered_none:
  "List.find (\<lambda>v. version v \<noteq> ex \<and> map_of dup (version v) \<noteq> None) xs = None \<Longrightarrow>
   snd (build_ordered xs ex dup) = []"
  using fold_ordered_step_first[of ex dup xs] by (simp add: build_ordered_fold)

lemma build_ordered_some:
  "List.find (\<lambda>v. version v \<noteq> ex \<and> map_of dup (version v) \<noteq> None) xs = Some f \<Longrightarrow>
   \<exists>rest. snd (build_ordered xs ex dup) = version f # rest"
  using fold_ordered_step_first[of ex dup xs] by (simp add: build_ordered_fold)

lemma survivor_version_known:
  "(map_of (build_dup xs ex) k \<noteq> None) = (k \<in> version ` set (survivors xs ex))"
  by (auto simp: build_dup_lookup filter_empty_conv)

lemma find_surviving_version:
  assumes "survivors xs ex \<noteq> []"
  shows "\<exists>f. List.find (\<lambda>v. version v \<in> version ` set (survivors xs ex)) xs = Some f"
proof -
  from assms obtain s where s: "s \<in> set (survivors xs ex)" by (cases "survivors xs ex") auto
  then have "s \<in> set xs" by (simp add: survivors_def)
  with s have "\<exists>v\<in>set xs. version v \<in> version ` set (survivors xs ex)" by blast
  then show ?thesis by (cases "List.find (\<lambda>v. version v \<in> version ` set (survivors xs ex)) xs")
      (auto simp: find_None_iff)
qed

lemma surviving_version_not_excluded:
  "version v \<in> version ` set (survivors xs ex) \<Longrightarrow> version v \<noteq> ex"
  by (auto simp: survivors_def)

lemma find_as_filter: "List.find P xs = (case filter P xs of [] \<Rightarrow> None | x # _ \<Rightarrow> Some x)"
  by (induction xs) auto

lemma pick_next_latest_result:
  assumes ne: "survivors xs ex \<noteq> []"
    and f: "List.find (\<lambda>v. version v \<in> version ` set (survivors xs ex)) xs = Some f"
  shows "\<exists>c0 rest. filter (\<lambda>v. version v = version f) (survivors xs ex) = c0 # rest \<and>
           pick_next_latest xs ex =
             Inr (Some (case List.find (\<lambda>c. release_status c = TRUSTED) (c0 # rest) of
                          Some t \<Rightarrow> t | None \<Rightarrow> c0))"
proof -
  let ?dup = "build_dup xs ex"
  have same: "(\<lambda>v. version v \<noteq> ex \<and> map_of ?dup (version v) \<noteq> None) =
              (\<lambda>v. version v \<in> version ` set (survivors xs ex))"
  proof (rule ext)
    fix v
    show "(version v \<noteq> ex \<and> map_of ?dup (version v) \<noteq> None) =
          (version v \<in> version ` set (survivors xs ex))"
      using survivor_version_known[of xs ex "version v"] surviving_version_not_excluded[of v xs ex]
      by blast
  qed
  from f have fin: "version f \<in> version ` set (survivors xs ex)"
    by (auto simp: find_Some_iff)
  then have "filter (\<lambda>v. version v = version f) (survivors xs ex) \<noteq> []"
    by (auto simp: filter_empty_conv)
  then obtain c0 rest where cands: "filter (\<lambda>v. version v = version f) (survivors xs ex) = c0 # rest"
    by (cases "filter (\<lambda>v. version v = version f) (survivors xs ex)") auto
  from f have "List.find (\<lambda>v. version v \<noteq> ex \<and> map_of ?dup (version v) \<noteq> None) xs = Some f"
    by (simp only: same)
  from build_ordered_some[OF this]
  obtain more where ord: "snd (build_ordered xs ex ?dup) = version f # more" by blast
  have look: "map_of ?dup (version f) = Some (c0 # rest)"
    using cands by (simp add: build_dup_lookup)
  have tr: "filter (\<lambda>c. release_status c = TRUSTED) (c0 # rest) \<noteq> [] \<Longrightarrow>
            List.find (\<lambda>c. release_status c = TRUSTED) (c0 # rest) =
              Some (hd (filter (\<lambda>c. release_status c = TRUSTED) (c0 # rest)))"
    by (cases "filter (\<lambda>c. release_status c = TRUSTED) (c0 # rest)")
       (simp_all only: find_as_filter list.case list.sel, simp_all)
  have tn: "filter (\<lambda>c. release_status c = TRUSTED) (c0 # rest) = [] \<Longrightarrow>
            List.find (\<lambda>c. release_status c = TRUSTED) (c0 # rest) = None"
    by (simp add: find_as_filter)
  have "pick_next_latest xs ex =
          Inr (Some (case List.find (\<lambda>c. release_status c = TRUSTED) (c0 # rest) of
                          Some t \<Rightarrow> t | None \<Rightarrow> c0))"
  proof (cases "filter (\<lambda>c. release_status c = TRUSTED) (c0 # rest) = []")
    case True
    with tn ne ord look show ?thesis
      by (simp add: pick_next_latest_def build_dup_empty Let_def)
  next
    case False
    with tr ne ord look show ?thesis
      by (simp add: pick_next_latest_def build_dup_empty Let_def)
  qed
  with cands show ?thesis by blast
qed

lemma find_in_set: "List.find P xs = Some a \<Longrightarrow> a \<in> set xs"
  by (induction xs) (auto split: if_splits)

lemma chosen_among_candidates:
  "(case List.find P (c0 # rest) of Some t \<Rightarrow> t | None \<Rightarrow> c0) \<in> set (c0 # rest)"
proof (cases "List.find P (c0 # rest)")
  case None
  then show ?thesis by simp
next
  case (Some t)
  then have "t \<in> set (c0 # rest)" by (rule find_in_set)
  with Some show ?thesis by simp
qed

text \<open>
  C3. For every ranked entry list and every version to exclude, \<^verbatim>\<open>pick_next_latest\<close>
  never returns an entry whose version str is the excluded one or whose tag is
  "quarantine"; it returns \<^verbatim>\<open>None\<close> exactly when no entry survives these two exclusions;
  otherwise it takes the first entry of the list whose version str is one that
  survives (the highest-ranked surviving version str) and returns, of the surviving
  entries with that version str, the first one with status TRUSTED_RELEASE if there is
  one, else the first one. It never raises.
\<close>

theorem pick_next_latest_selects:
  "(\<forall>c. pick_next_latest ranked ex = Inr (Some c) \<longrightarrow>
        c \<in> set ranked \<and> version c \<noteq> ex \<and> tag c \<noteq> QUARANTINE_TAG) \<and>
   (pick_next_latest ranked ex = Inr None \<longleftrightarrow> survivors ranked ex = []) \<and>
   (survivors ranked ex \<noteq> [] \<longrightarrow>
      (\<exists>f c0 rest.
         List.find (\<lambda>v. version v \<in> version ` set (survivors ranked ex)) ranked = Some f \<and>
         filter (\<lambda>v. version v = version f) (survivors ranked ex) = c0 # rest \<and>
         pick_next_latest ranked ex =
           Inr (Some (case List.find (\<lambda>c. release_status c = TRUSTED) (c0 # rest) of
                        Some t \<Rightarrow> t | None \<Rightarrow> c0))))"
proof (cases "survivors ranked ex = []")
  case True
  then have "pick_next_latest ranked ex = Inr None"
    by (simp add: pick_next_latest_def build_dup_empty)
  with True show ?thesis by simp
next
  case False
  from find_surviving_version[OF False] obtain f where
    f: "List.find (\<lambda>v. version v \<in> version ` set (survivors ranked ex)) ranked = Some f"
    by blast
  from pick_next_latest_result[OF False f] obtain c0 rest where
    cands: "filter (\<lambda>v. version v = version f) (survivors ranked ex) = c0 # rest" and
    res: "pick_next_latest ranked ex =
           Inr (Some (case List.find (\<lambda>c. release_status c = TRUSTED) (c0 # rest) of
                        Some t \<Rightarrow> t | None \<Rightarrow> c0))"
    by blast
  let ?c = "case List.find (\<lambda>c. release_status c = TRUSTED) (c0 # rest) of
              Some t \<Rightarrow> t | None \<Rightarrow> c0"
  have "?c \<in> set (c0 # rest)" by (rule chosen_among_candidates)
  with cands have "?c \<in> set (survivors ranked ex)"
    by (metis filter_is_subset subsetD)
  then have props: "?c \<in> set ranked \<and> version ?c \<noteq> ex \<and> tag ?c \<noteq> QUARANTINE_TAG"
    by (simp add: survivors_def)
  have 1: "\<forall>c. pick_next_latest ranked ex = Inr (Some c) \<longrightarrow>
        c \<in> set ranked \<and> version c \<noteq> ex \<and> tag c \<noteq> QUARANTINE_TAG"
    using res props by simp
  have 2: "pick_next_latest ranked ex = Inr None \<longleftrightarrow> survivors ranked ex = []"
    using res False by simp
  from 1 2 f cands res show ?thesis by blast
qed

theorem pick_next_latest_selects_witness:
  "survivors
     [\<lparr>version = ascii ''2.0.0'', tag = ascii ''latest'', release_status = ascii ''RELEASED''\<rparr>,
      \<lparr>version = ascii ''1.5.0'', tag = [], release_status = ascii ''TRUSTED_RELEASE''\<rparr>,
      \<lparr>version = ascii ''1.0.0'', tag = ascii ''quarantine'', release_status = ascii ''RELEASED''\<rparr>]
     (ascii ''2.0.0'') \<noteq> [] \<and>
   pick_next_latest
     [\<lparr>version = ascii ''2.0.0'', tag = ascii ''latest'', release_status = ascii ''RELEASED''\<rparr>,
      \<lparr>version = ascii ''1.5.0'', tag = [], release_status = ascii ''TRUSTED_RELEASE''\<rparr>,
      \<lparr>version = ascii ''1.0.0'', tag = ascii ''quarantine'', release_status = ascii ''RELEASED''\<rparr>]
     (ascii ''2.0.0'') =
   Inr (Some \<lparr>version = ascii ''1.5.0'', tag = [], release_status = ascii ''TRUSTED_RELEASE''\<rparr>)"
proof -
  let ?xs = "[\<lparr>version = ascii ''2.0.0'', tag = ascii ''latest'', release_status = ascii ''RELEASED''\<rparr>,
      \<lparr>version = ascii ''1.5.0'', tag = [], release_status = ascii ''TRUSTED_RELEASE''\<rparr>,
      \<lparr>version = ascii ''1.0.0'', tag = ascii ''quarantine'', release_status = ascii ''RELEASED''\<rparr>]"
  let ?e = "\<lparr>version = ascii ''1.5.0'', tag = [], release_status = ascii ''TRUSTED_RELEASE''\<rparr>"
  have s: "survivors ?xs (ascii ''2.0.0'') = [?e]"
    by (simp add: survivors_def QUARANTINE_TAG_def ascii_def)
  then have ne: "survivors ?xs (ascii ''2.0.0'') \<noteq> []" by simp
  have "\<exists>f c0 rest.
         List.find (\<lambda>v. version v \<in> version ` set (survivors ?xs (ascii ''2.0.0''))) ?xs = Some f \<and>
         filter (\<lambda>v. version v = version f) (survivors ?xs (ascii ''2.0.0'')) = c0 # rest \<and>
         pick_next_latest ?xs (ascii ''2.0.0'') =
           Inr (Some (case List.find (\<lambda>c. release_status c = TRUSTED) (c0 # rest) of
                        Some t \<Rightarrow> t | None \<Rightarrow> c0))"
    using pick_next_latest_selects[of ?xs "ascii ''2.0.0''", THEN conjunct2, THEN conjunct2] ne
    by (rule mp)
  then obtain f :: entry and c0 rest where
    cands: "filter (\<lambda>v. version v = version f) (survivors ?xs (ascii ''2.0.0'')) = c0 # rest" and
    res: "pick_next_latest ?xs (ascii ''2.0.0'') =
           Inr (Some (case List.find (\<lambda>c. release_status c = TRUSTED) (c0 # rest) of
                        Some t \<Rightarrow> t | None \<Rightarrow> c0))"
    by (elim exE conjE) blast
  from cands have "c0 = ?e \<and> rest = []"
    unfolding s by (simp split: if_splits)
  with res have "pick_next_latest ?xs (ascii ''2.0.0'') = Inr (Some ?e)"
    by (simp add: TRUSTED_def)
  with ne show ?thesis by simp
qed

section \<open>The orchestrator\<close>

lemma fold_by_version_lookup:
  "fold (\<lambda>v m. m(version v \<mapsto> v)) xs m k =
     (if filter (\<lambda>v. version v = k) xs = [] then m k
      else Some (last (filter (\<lambda>v. version v = k) xs)))"
  by (induction xs arbitrary: m) auto

lemma by_version_of_lookup:
  "by_version_of xs k =
     (if filter (\<lambda>v. version v = k) xs = [] then None
      else Some (last (filter (\<lambda>v. version v = k) xs)))"
  by (simp add: by_version_of_def fold_by_version_lookup)

lemma by_version_of_None: "by_version_of xs k = None \<longleftrightarrow> k \<notin> version ` set xs"
  by (auto simp: by_version_of_lookup filter_empty_conv)

lemma found_iff:
  "(filter (\<lambda>v. version v = target) xs \<noteq> []) = (target \<in> version ` set xs)"
  by (auto simp: filter_empty_conv)

lemmas run_defs =
  rollback_in_prod_def seq_def emit_def raise_def list_application_versions_def
  call_rollback_def rollback_application_version_def Let_def

lemmas tag_defs =
  tag_steps_def seq_def emit_def raise_def backup_tag_then_patch_def
  patch_application_version_def Let_def

lemma rollback_list_fails:
  "list_response client = None \<Longrightarrow>
   rollback_in_prod client app_key target dry_run = ([ListVersions app_key], Inl RemoteError)"
  by (simp add: run_defs)

lemma rollback_ranking_fails:
  "list_response client = Some versions \<Longrightarrow> get_prod_versions versions = Inl e \<Longrightarrow>
   rollback_in_prod client app_key target dry_run = ([ListVersions app_key], Inl e)"
  by (simp add: run_defs)

lemma rollback_not_found:
  "list_response client = Some versions \<Longrightarrow> get_prod_versions versions = Inr pvs \<Longrightarrow>
   target \<notin> version ` set pvs \<Longrightarrow>
   rollback_in_prod client app_key target dry_run =
     ([ListVersions app_key], Inl (TargetNotFound target))"
  using by_version_of_None[of pvs target]
  by (simp add: run_defs)

lemma rollback_call_fails:
  "list_response client = Some versions \<Longrightarrow> get_prod_versions versions = Inr pvs \<Longrightarrow>
   target \<in> version ` set pvs \<Longrightarrow>
   \<not> rollback_ok client \<Longrightarrow>
   rollback_in_prod client app_key target False =
     ([ListVersions app_key, Print (CallingEndpoint app_key target (ascii ''PROD'')),
       RollbackVersion app_key target (ascii ''PROD'')], Inl RollbackFailed)"
  using by_version_of_None[of pvs target]
  by (auto simp: run_defs split: option.splits)

lemma rollback_proceeds:
  assumes "list_response client = Some versions"
    and "get_prod_versions versions = Inr pvs"
    and "filter (\<lambda>v. version v = target) pvs \<noteq> []"
    and "dry_run \<or> rollback_ok client"
  shows "rollback_in_prod client app_key target dry_run =
     (ListVersions app_key #
      (if dry_run then [Print (DryRunRollback app_key target (ascii ''PROD''))]
       else [Print (CallingEndpoint app_key target (ascii ''PROD'')),
             RollbackVersion app_key target (ascii ''PROD''),
             Print (InvokedRollback app_key target (ascii ''PROD''))]) @
      fst (tag_steps client app_key target
             (last (filter (\<lambda>v. version v = target) pvs)) pvs dry_run),
      snd (tag_steps client app_key target
             (last (filter (\<lambda>v. version v = target) pvs)) pvs dry_run))"
  using assms
  by (auto simp: run_defs by_version_of_lookup split: prod.splits sum.splits option.splits)

lemma all_ok_simps:
  "list_response (all_ok client) = list_response client"
  "rollback_ok (all_ok client)"
  "patch_ok (all_ok client) ver"
  by (simp_all add: all_ok_def)

lemma tag_steps_dry_run:
  "filter is_mutating (fst (tag_steps client app_key target tgt pvs True)) = [] \<and>
   List.map_filter intended (fst (tag_steps client app_key target tgt pvs True)) =
     filter is_mutating (fst (tag_steps (all_ok client) app_key target tgt pvs False)) \<and>
   snd (tag_steps client app_key target tgt pvs True) =
     snd (tag_steps (all_ok client) app_key target tgt pvs False)"
  by (auto simp: tag_defs all_ok_simps map_filter_simps split: sum.splits option.splits)

lemma tag_steps_no_rollback:
  "RollbackVersion a v s \<notin> set (fst (tag_steps client app_key target tgt pvs dry_run))"
  by (auto simp: tag_defs split: sum.splits option.splits)

lemma pick_next_latest_no_error: "pick_next_latest xs ex \<noteq> Inl e"
proof (cases "survivors xs ex = []")
  case True
  then show ?thesis by (simp add: pick_next_latest_def build_dup_empty)
next
  case False
  from find_surviving_version[OF False] obtain f where
    "List.find (\<lambda>v. version v \<in> version ` set (survivors xs ex)) xs = Some f" by blast
  from pick_next_latest_result[OF False this] show ?thesis by auto
qed

lemma tag_steps_found:
  "snd (tag_steps client app_key target tgt pvs True) \<noteq> Inl (TargetNotFound target)"
  using pick_next_latest_no_error[of pvs target]
  by (auto simp: tag_defs split: sum.splits option.splits)

text \<open>
  C6. For every client, application and target, a run with \<^verbatim>\<open>dry_run=True\<close> performs
  the list request first, issues no rollback request and no patch request whatever it
  decides, and still decides: it ends in the not-found error exactly when the target is
  absent from the eligible set, and the requests it announces in its dry-run lines are,
  in order, the mutating requests of the real run in which every request succeeds, with
  the same outcome.
\<close>

theorem dry_run_issues_no_mutating_call:
  "(\<exists>rest. fst (rollback_in_prod client app_key target True) = ListVersions app_key # rest) \<and>
   filter is_mutating (fst (rollback_in_prod client app_key target True)) = [] \<and>
   (\<forall>versions pvs. list_response client = Some versions \<and> get_prod_versions versions = Inr pvs \<longrightarrow>
      (snd (rollback_in_prod client app_key target True) = Inl (TargetNotFound target)
         \<longleftrightarrow> target \<notin> version ` set pvs)) \<and>
   List.map_filter intended (fst (rollback_in_prod client app_key target True)) =
     filter is_mutating (fst (rollback_in_prod (all_ok client) app_key target False)) \<and>
   snd (rollback_in_prod client app_key target True) =
     snd (rollback_in_prod (all_ok client) app_key target False)"
proof (cases "list_response client")
  case None
  then show ?thesis
    by (simp add: rollback_list_fails all_ok_simps map_filter_simps)
next
  case (Some versions)
  show ?thesis
  proof (cases "get_prod_versions versions")
    case (Inl e)
    with Some show ?thesis
      by (simp add: rollback_ranking_fails[of _ versions] all_ok_simps map_filter_simps)
  next
    case (Inr pvs)
    show ?thesis
    proof (cases "target \<in> version ` set pvs")
      case False
      with Some Inr show ?thesis
        by (simp add: rollback_not_found[of _ versions] all_ok_simps map_filter_simps)
    next
      case True
      then have ne: "filter (\<lambda>v. version v = target) pvs \<noteq> []"
        by (simp add: found_iff)
      let ?tgt = "last (filter (\<lambda>v. version v = target) pvs)"
      note dry = rollback_proceeds[OF Some Inr ne, of True app_key, simplified]
      have "list_response (all_ok client) = Some versions" using Some by (simp add: all_ok_simps)
      note real = rollback_proceeds[OF this Inr ne, of False app_key, simplified all_ok_simps, simplified]
      note ts = tag_steps_dry_run[of client app_key target ?tgt pvs]
      note r = tag_steps_found[of client app_key target ?tgt pvs]
      show ?thesis
        using Some Inr True ts r unfolding dry real
        by (simp add: map_filter_simps)
    qed
  qed
qed

theorem dry_run_issues_no_mutating_call_witness:
  "list_response
     \<lparr>list_response =
        Some [\<lparr>raw_version = ascii ''2.0.0'', raw_tag = Some (ascii ''latest''),
                raw_release_status = ascii ''RELEASED''\<rparr>,
              \<lparr>raw_version = ascii ''1.5.0'', raw_tag = None,
                raw_release_status = ascii ''trusted_release''\<rparr>],
      rollback_ok = False, patch_ok = (\<lambda>ver. False)\<rparr> =
     Some [\<lparr>raw_version = ascii ''2.0.0'', raw_tag = Some (ascii ''latest''),
             raw_release_status = ascii ''RELEASED''\<rparr>,
           \<lparr>raw_version = ascii ''1.5.0'', raw_tag = None,
             raw_release_status = ascii ''trusted_release''\<rparr>] \<and>
   get_prod_versions
       [\<lparr>raw_version = ascii ''2.0.0'', raw_tag = Some (ascii ''latest''),
          raw_release_status = ascii ''RELEASED''\<rparr>,
        \<lparr>raw_version = ascii ''1.5.0'', raw_tag = None,
          raw_release_status = ascii ''trusted_release''\<rparr>] =
     Inr [\<lparr>version = ascii ''2.0.0'', tag = ascii ''latest'', release_status = RELEASED\<rparr>,
          \<lparr>version = ascii ''1.5.0'', tag = [], release_status = TRUSTED\<rparr>] \<and>
   snd (rollback_in_prod
     \<lparr>list_response =
        Some [\<lparr>raw_version = ascii ''2.0.0'', raw_tag = Some (ascii ''latest''),
                raw_release_status = ascii ''RELEASED''\<rparr>,
              \<lparr>raw_version = ascii ''1.5.0'', raw_tag = None,
                raw_release_status = ascii ''trusted_release''\<rparr>],
      rollback_ok = False, patch_ok = (\<lambda>ver. False)\<rparr> (ascii ''web'') (ascii ''2.0.0'') True)
     \<noteq> Inl (TargetNotFound (ascii ''2.0.0''))"
proof -
  let ?vs = "[\<lparr>raw_version = ascii ''2.0.0'', raw_tag = Some (ascii ''latest''),
                raw_release_status = ascii ''RELEASED''\<rparr>,
              \<lparr>raw_version = ascii ''1.5.0'', raw_tag = None,
                raw_release_status = ascii ''trusted_release''\<rparr>]"
  let ?pvs = "[\<lparr>version = ascii ''2.0.0'', tag = ascii ''latest'', release_status = RELEASED\<rparr>,
          \<lparr>version = ascii ''1.5.0'', tag = [], release_status = TRUSTED\<rparr>]"
  let ?c = "\<lparr>list_response = Some ?vs, rollback_ok = False, patch_ok = (\<lambda>ver. False)\<rparr>"
  have l: "list_response ?c = Some ?vs" by simp
  have g: "get_prod_versions ?vs = Inr ?pvs" by code_simp
  have m: "ascii ''2.0.0'' \<in> version ` set ?pvs" by simp
  have "snd (rollback_in_prod ?c (ascii ''web'') (ascii ''2.0.0'') True) =
          Inl (TargetNotFound (ascii ''2.0.0''))
         \<longleftrightarrow> ascii ''2.0.0'' \<notin> version ` set ?pvs"
    using dry_run_issues_no_mutating_call[of ?c "ascii ''web''" "ascii ''2.0.0''",
            THEN conjunct2, THEN conjunct2, THEN conjunct1, rule_format, of ?vs ?pvs] l g
    by blast
  with l g m show ?thesis by blast
qed

text \<open>
  C7. In a run that is not a dry run, a patch request is only ever issued after the
  list request and the stage-rollback request, and only when the target was found in the
  eligible set and the stage rollback returned; the stage rollback is always requested
  for the target and from stage "PROD". If the target is absent from the eligible set
  the run ends in the not-found error having sent no mutating request at all; if the
  stage-rollback request fails the run ends in the rollback failure, the failed request
  being the only mutating request sent and no patch request following it.
\<close>

theorem no_patch_before_validation_and_rollback:
  "((\<exists>e \<in> set (fst (rollback_in_prod client app_key target False)). is_patch e) \<longrightarrow>
      (\<exists>versions pvs. list_response client = Some versions \<and>
                  get_prod_versions versions = Inr pvs \<and> target \<in> version ` set pvs) \<and>
      rollback_ok client \<and>
      ListVersions app_key \<in>
        set (takeWhile (\<lambda>e. \<not> is_patch e) (fst (rollback_in_prod client app_key target False))) \<and>
      RollbackVersion app_key target (ascii ''PROD'') \<in>
        set (takeWhile (\<lambda>e. \<not> is_patch e) (fst (rollback_in_prod client app_key target False)))) \<and>
   (\<forall>a v s. RollbackVersion a v s \<in> set (fst (rollback_in_prod client app_key target False)) \<longrightarrow>
      a = app_key \<and> v = target \<and> s = ascii ''PROD'') \<and>
   (\<forall>versions pvs. list_response client = Some versions \<and> get_prod_versions versions = Inr pvs \<and>
       target \<notin> version ` set pvs \<longrightarrow>
       snd (rollback_in_prod client app_key target False) = Inl (TargetNotFound target) \<and>
       filter is_mutating (fst (rollback_in_prod client app_key target False)) = []) \<and>
   (\<forall>versions pvs. list_response client = Some versions \<and> get_prod_versions versions = Inr pvs \<and>
       target \<in> version ` set pvs \<and> \<not> rollback_ok client \<longrightarrow>
       snd (rollback_in_prod client app_key target False) = Inl RollbackFailed \<and>
       filter is_patch (fst (rollback_in_prod client app_key target False)) = [] \<and>
       filter is_mutating (fst (rollback_in_prod client app_key target False)) =
         [RollbackVersion app_key target (ascii ''PROD'')])"
proof (cases "list_response client")
  case None
  then show ?thesis by (simp add: rollback_list_fails)
next
  case (Some versions)
  show ?thesis
  proof (cases "get_prod_versions versions")
    case (Inl e)
    with Some show ?thesis by (simp add: rollback_ranking_fails[of _ versions])
  next
    case (Inr pvs)
    show ?thesis
    proof (cases "target \<in> version ` set pvs")
      case False
      with Some Inr show ?thesis by (simp add: rollback_not_found[of _ versions])
    next
      case True
      note found = this
      show ?thesis
      proof (cases "rollback_ok client")
        case False
        with Some Inr found show ?thesis by (simp add: rollback_call_fails[of _ versions])
      next
        case True
        from found have ne: "filter (\<lambda>v. version v = target) pvs \<noteq> []"
          by (simp add: found_iff)
        from True have "False \<or> rollback_ok client" by simp
        note real = rollback_proceeds[OF Some Inr ne this, of app_key, simplified]
        show ?thesis
          unfolding real using Some Inr found True
          by (simp add: tag_steps_no_rollback)
      qed
    qed
  qed
qed

theorem no_patch_before_validation_and_rollback_witness:
  "(\<exists>e \<in> set (fst (rollback_in_prod
       \<lparr>list_response =
          Some [\<lparr>raw_version = ascii ''2.0.0'', raw_tag = Some (ascii ''latest''),
                  raw_release_status = ascii ''RELEASED''\<rparr>],
        rollback_ok = True, patch_ok = (\<lambda>ver. True)\<rparr> (ascii ''web'') (ascii ''2.0.0'') False)).
      is_patch e) \<and>
   RollbackVersion (ascii ''web'') (ascii ''2.0.0'') (ascii ''PROD'') \<in>
     set (takeWhile (\<lambda>e. \<not> is_patch e) (fst (rollback_in_prod
       \<lparr>list_response =
          Some [\<lparr>raw_version = ascii ''2.0.0'', raw_tag = Some (ascii ''latest''),
                  raw_release_status = ascii ''RELEASED''\<rparr>],
        rollback_ok = True, patch_ok = (\<lambda>ver. True)\<rparr> (ascii ''web'') (ascii ''2.0.0'') False))) \<and>
   get_prod_versions
       [\<lparr>raw_version = ascii ''2.0.0'', raw_tag = Some (ascii ''latest''),
          raw_release_status = ascii ''RELEASED''\<rparr>] =
     Inr [\<lparr>version = ascii ''2.0.0'', tag = ascii ''latest'', release_status = RELEASED\<rparr>] \<and>
   snd (rollback_in_prod
       \<lparr>list_response =
          Some [\<lparr>raw_version = ascii ''2.0.0'', raw_tag = Some (ascii ''latest''),
                  raw_release_status = ascii ''RELEASED''\<rparr>],
        rollback_ok = True, patch_ok = (\<lambda>ver. True)\<rparr> (ascii ''web'') (ascii ''1.0.0'') False) =
     Inl (TargetNotFound (ascii ''1.0.0''))"
proof -
  let ?vs = "[\<lparr>raw_version = ascii ''2.0.0'', raw_tag = Some (ascii ''latest''),
                  raw_release_status = ascii ''RELEASED''\<rparr>]"
  let ?pvs = "[\<lparr>version = ascii ''2.0.0'', tag = ascii ''latest'', release_status = RELEASED\<rparr>]"
  let ?c = "\<lparr>list_response = Some ?vs, rollback_ok = True, patch_ok = (\<lambda>ver. True)\<rparr>"
  have tr: "fst (rollback_in_prod ?c (ascii ''web'') (ascii ''2.0.0'') False) =
     [ListVersions (ascii ''web''),
      Print (CallingEndpoint (ascii ''web'') (ascii ''2.0.0'') (ascii ''PROD'')),
      RollbackVersion (ascii ''web'') (ascii ''2.0.0'') (ascii ''PROD''),
      Print (InvokedRollback (ascii ''web'') (ascii ''2.0.0'') (ascii ''PROD'')),
      PatchVersion (ascii ''web'') (ascii ''2.0.0'') (ascii ''quarantine'')
        [(ascii ''original_tag_before_quarantine'', [ascii ''latest''])],
      Print NoSuccessor]"
    by code_simp
  have p: "\<exists>e \<in> set (fst (rollback_in_prod ?c (ascii ''web'') (ascii ''2.0.0'') False)). is_patch e"
    unfolding tr by simp
  have l: "list_response ?c = Some ?vs" by simp
  have g: "get_prod_versions ?vs = Inr ?pvs" by code_simp
  have n: "ascii ''1.0.0'' \<notin> version ` set ?pvs" by (simp add: ascii_def)
  have before: "RollbackVersion (ascii ''web'') (ascii ''2.0.0'') (ascii ''PROD'') \<in>
     set (takeWhile (\<lambda>e. \<not> is_patch e) (fst (rollback_in_prod ?c (ascii ''web'') (ascii ''2.0.0'') False)))"
    using no_patch_before_validation_and_rollback[of ?c "ascii ''web''" "ascii ''2.0.0''",
            THEN conjunct1] p
    by blast
  have nf: "snd (rollback_in_prod ?c (ascii ''web'') (ascii ''1.0.0'') False) =
      Inl (TargetNotFound (ascii ''1.0.0''))"
    using no_patch_before_validation_and_rollback[of ?c "ascii ''web''" "ascii ''1.0.0''",
            THEN conjunct2, THEN conjunct2, THEN conjunct1] l g n
    by blast
  from p before g nf show ?thesis by blast
qed

text \<open>
  C8. The end-to-end scenario: the registry holds 2.0.0 (tag "latest", RELEASED), 1.5.0
  (tag "", TRUSTED_RELEASE) and 1.0.0 (tag "quarantine", RELEASED). A real rollback of
  2.0.0 requests the stage rollback of 2.0.0 from PROD, then patches 2.0.0 to tag
  "quarantine", recording the prior tag "latest" under the quarantine backup key, picks
  1.5.0 as successor (1.0.0 is quarantined), and patches 1.5.0 to tag "latest", recording
  its prior tag, the empty string, under the latest-reassignment backup key.
\<close>

theorem end_to_end_scenario:
  "get_prod_versions
     [\<lparr>raw_version = ascii ''2.0.0'', raw_tag = Some (ascii ''latest''),
        raw_release_status = ascii ''RELEASED''\<rparr>,
      \<lparr>raw_version = ascii ''1.5.0'', raw_tag = Some [],
        raw_release_status = ascii ''TRUSTED_RELEASE''\<rparr>,
      \<lparr>raw_version = ascii ''1.0.0'', raw_tag = Some (ascii ''quarantine''),
        raw_release_status = ascii ''RELEASED''\<rparr>] =
     Inr [\<lparr>version = ascii ''2.0.0'', tag = ascii ''latest'', release_status = ascii ''RELEASED''\<rparr>,
          \<lparr>version = ascii ''1.5.0'', tag = [], release_status = ascii ''TRUSTED_RELEASE''\<rparr>,
          \<lparr>version = ascii ''1.0.0'', tag = ascii ''quarantine'',
             release_status = ascii ''RELEASED''\<rparr>] \<and>
   pick_next_latest
     [\<lparr>version = ascii ''2.0.0'', tag = ascii ''latest'', release_status = ascii ''RELEASED''\<rparr>,
      \<lparr>version = ascii ''1.5.0'', tag = [], release_status = ascii ''TRUSTED_RELEASE''\<rparr>,
      \<lparr>version = ascii ''1.0.0'', tag = ascii ''quarantine'', release_status = ascii ''RELEASED''\<rparr>]
     (ascii ''2.0.0'') =
     Inr (Some \<lparr>version = ascii ''1.5.0'', tag = [], release_status = ascii ''TRUSTED_RELEASE''\<rparr>) \<and>
   rollback_in_prod
     \<lparr>list_response =
        Some [\<lparr>raw_version = ascii ''2.0.0'', raw_tag = Some (ascii ''latest''),
                raw_release_status = ascii ''RELEASED''\<rparr>,
              \<lparr>raw_version = ascii ''1.5.0'', raw_tag = Some [],
                raw_release_status = ascii ''TRUSTED_RELEASE''\<rparr>,
              \<lparr>raw_version = ascii ''1.0.0'', raw_tag = Some (ascii ''quarantine''),
                raw_release_status = ascii ''RELEASED''\<rparr>],
      rollback_ok = True, patch_ok = (\<lambda>ver. True)\<rparr>
     (ascii ''bookverse-web'') (ascii ''2.0.0'') False =
   ([ListVersions (ascii ''bookverse-web''),
     Print (CallingEndpoint (ascii ''bookverse-web'') (ascii ''2.0.0'') (ascii ''PROD'')),
     RollbackVersion (ascii ''bookverse-web'') (ascii ''2.0.0'') (ascii ''PROD''),
     Print (InvokedRollback (ascii ''bookverse-web'') (ascii ''2.0.0'') (ascii ''PROD'')),
     PatchVersion (ascii ''bookverse-web'') (ascii ''2.0.0'') QUARANTINE_TAG
       [(BACKUP_BEFORE_QUARANTINE, [LATEST_TAG])],
     PatchVersion (ascii ''bookverse-web'') (ascii ''1.5.0'') LATEST_TAG
       [(BACKUP_BEFORE_LATEST, [[]])],
     Print (ReassignedLatest (ascii ''1.5.0''))],
    Inr ())"
  by code_simp

lemma tag_steps_first_patch:
  "\<exists>rest. filter is_patch (fst (tag_steps client app_key target tgt pvs False)) =
     PatchVersion app_key target QUARANTINE_TAG [(BACKUP_BEFORE_QUARANTINE, [tag tgt])] # rest"
  by (auto simp: tag_defs split: sum.splits option.splits)

lemma tag_steps_first_announced:
  "\<exists>rest. filter is_patch (List.map_filter intended (fst (tag_steps client app_key target tgt pvs True))) =
     PatchVersion app_key target QUARANTINE_TAG [(BACKUP_BEFORE_QUARANTINE, [tag tgt])] # rest"
  by (auto simp: tag_defs map_filter_simps split: sum.splits option.splits)

lemma tag_steps_latest_unchanged:
  "dry_run \<or> patch_ok client target \<Longrightarrow>
   Print LatestUnchanged \<in> set (fst (tag_steps client app_key target tgt pvs dry_run))
     \<longleftrightarrow> tag tgt \<noteq> LATEST_TAG"
  by (auto simp: tag_defs split: sum.splits option.splits)

text \<open>
  C10. When the ranked eligible list holds more than one entry with the target's version
  string, and the run gets as far as the tag steps (a dry run, or the stage rollback
  returned), the target is the last of these entries in ranked order: the dictionary
  \<^verbatim>\<open>by_version\<close> holds that entry; the first patch request of the run (in a dry run,
  the first patch announced) sets the target to "quarantine" and records the tag of
  that last entry under the quarantine backup key; and, the quarantine patch
  returning, the run prints that "latest" is unchanged exactly when the tag of that
  last entry is not "latest".
\<close>

theorem target_is_last_duplicate:
  assumes "list_response client = Some versions"
    and "get_prod_versions versions = Inr pvs"
    and "1 < length (filter (\<lambda>v. version v = target) pvs)"
    and "dry_run \<or> rollback_ok client"
  shows "by_version_of pvs target = Some (last (filter (\<lambda>v. version v = target) pvs)) \<and>
     (\<not> dry_run \<longrightarrow>
        (\<exists>rest. filter is_patch (fst (rollback_in_prod client app_key target dry_run)) =
           PatchVersion app_key target QUARANTINE_TAG
             [(BACKUP_BEFORE_QUARANTINE, [tag (last (filter (\<lambda>v. version v = target) pvs))])]
           # rest)) \<and>
     (dry_run \<longrightarrow>
        (\<exists>rest. filter is_patch
                  (List.map_filter intended (fst (rollback_in_prod client app_key target dry_run))) =
           PatchVersion app_key target QUARANTINE_TAG
             [(BACKUP_BEFORE_QUARANTINE, [tag (last (filter (\<lambda>v. version v = target) pvs))])]
           # rest)) \<and>
     (dry_run \<or> patch_ok client target \<longrightarrow>
        (Print LatestUnchanged \<in> set (fst (rollback_in_prod client app_key target dry_run))
           \<longleftrightarrow> tag (last (filter (\<lambda>v. version v = target) pvs)) \<noteq> LATEST_TAG))"
proof -
  let ?tgt = "last (filter (\<lambda>v. version v = target) pvs)"
  from assms(3) have ne: "filter (\<lambda>v. version v = target) pvs \<noteq> []" by auto
  then have 1: "by_version_of pvs target = Some ?tgt" by (simp add: by_version_of_lookup)
  note run = rollback_proceeds[OF assms(1,2) ne assms(4), of app_key]
  have 2: "\<not> dry_run \<longrightarrow>
        (\<exists>rest. filter is_patch (fst (rollback_in_prod client app_key target dry_run)) =
           PatchVersion app_key target QUARANTINE_TAG [(BACKUP_BEFORE_QUARANTINE, [tag ?tgt])] # rest)"
    using tag_steps_first_patch[of client app_key target ?tgt pvs]
    unfolding run by auto
  have 3: "dry_run \<longrightarrow>
        (\<exists>rest. filter is_patch
                  (List.map_filter intended (fst (rollback_in_prod client app_key target dry_run))) =
           PatchVersion app_key target QUARANTINE_TAG [(BACKUP_BEFORE_QUARANTINE, [tag ?tgt])] # rest)"
    using tag_steps_first_announced[of client app_key target ?tgt pvs]
    unfolding run by (auto simp: map_filter_simps)
  have 4: "dry_run \<or> patch_ok client target \<longrightarrow>
        (Print LatestUnchanged \<in> set (fst (rollback_in_prod client app_key target dry_run))
           \<longleftrightarrow> tag ?tgt \<noteq> LATEST_TAG)"
    using tag_steps_latest_unchanged[of dry_run client target app_key ?tgt pvs]
    unfolding run by auto
  from 1 2 3 4 show ?thesis by blast
qed

theorem target_is_last_duplicate_witness:
  "get_prod_versions
       [\<lparr>raw_version = ascii ''2.0.0'', raw_tag = Some (ascii ''latest''),
          raw_release_status = ascii ''RELEASED''\<rparr>,
        \<lparr>raw_version = ascii ''2.0.0'', raw_tag = None,
          raw_release_status = ascii ''TRUSTED_RELEASE''\<rparr>] =
     Inr [\<lparr>version = ascii ''2.0.0'', tag = ascii ''latest'', release_status = RELEASED\<rparr>,
          \<lparr>version = ascii ''2.0.0'', tag = [], release_status = TRUSTED\<rparr>] \<and>
   by_version_of
     [\<lparr>version = ascii ''2.0.0'', tag = ascii ''latest'', release_status = RELEASED\<rparr>,
      \<lparr>version = ascii ''2.0.0'', tag = [], release_status = TRUSTED\<rparr>] (ascii ''2.0.0'') =
     Some \<lparr>version = ascii ''2.0.0'', tag = [], release_status = TRUSTED\<rparr> \<and>
   Print LatestUnchanged \<in> set (fst (rollback_in_prod
     \<lparr>list_response =
        Some [\<lparr>raw_version = ascii ''2.0.0'', raw_tag = Some (ascii ''latest''),
                raw_release_status = ascii ''RELEASED''\<rparr>,
              \<lparr>raw_version = ascii ''2.0.0'', raw_tag = None,
                raw_release_status = ascii ''TRUSTED_RELEASE''\<rparr>],
      rollback_ok = True, patch_ok = (\<lambda>ver. True)\<rparr> (ascii ''web'') (ascii ''2.0.0'') False))"
proof -
  let ?vs = "[\<lparr>raw_version = ascii ''2.0.0'', raw_tag = Some (ascii ''latest''),
                raw_release_status = ascii ''RELEASED''\<rparr>,
              \<lparr>raw_version = ascii ''2.0.0'', raw_tag = None,
                raw_release_status = ascii ''TRUSTED_RELEASE''\<rparr>]"
  let ?pvs = "[\<lparr>version = ascii ''2.0.0'', tag = ascii ''latest'', release_status = RELEASED\<rparr>,
          \<lparr>version = ascii ''2.0.0'', tag = [], release_status = TRUSTED\<rparr>]"
  let ?c = "\<lparr>list_response = Some ?vs, rollback_ok = True, patch_ok = (\<lambda>ver. True)\<rparr>"
  have l: "list_response ?c = Some ?vs" by simp
  have g: "get_prod_versions ?vs = Inr ?pvs" by code_simp
  have f: "filter (\<lambda>v. version v = ascii ''2.0.0'') ?pvs = ?pvs" by simp
  then have m: "1 < length (filter (\<lambda>v. version v = ascii ''2.0.0'') ?pvs)" by simp
  have d: "False \<or> rollback_ok ?c" by simp
  note t = target_is_last_duplicate[OF l g m d, of "ascii ''web''", unfolded f]
  from t have b: "by_version_of ?pvs (ascii ''2.0.0'') =
      Some \<lparr>version = ascii ''2.0.0'', tag = [], release_status = TRUSTED\<rparr>"
    by simp
  have "tag (last ?pvs) \<noteq> LATEST_TAG" by (simp add: LATEST_TAG_def ascii_def)
  with t have "Print LatestUnchanged \<in> set (fst (rollback_in_prod ?c (ascii ''web'') (ascii ''2.0.0'') False))"
    by simp
  with g b show ?thesis by blast
qed

end
